theory Spec2Isabelle
  imports Main "HOL-Library.Sublist"
begin

section \<open>Values of the JavaScript runtime\<close>

text \<open>
  The page is written in TypeScript; the values that cross its boundaries (the stored
  snapshot, the response of the save endpoint) are whatever \<^verbatim>\<open>JSON.parse\<close> returns.
  A parsed object is the list of its own properties, each key once. Numbers carry an
  integer only: the page never computes with one, it only tests it for truthiness.
\<close>

datatype json =
    JNull
  | JBool bool
  | JNum int
  | JStr string
  | JArr "json list"
  | JObj "(string \<times> json) list"

text \<open>
  What can be thrown inside the page: an error of the AWS SDK (it has a
  \<^verbatim>\<open>statusCode\<close> when the service answered), the \<^verbatim>\<open>SyntaxError\<close> of
  \<^verbatim>\<open>JSON.parse\<close>, and the \<^verbatim>\<open>TypeError\<close> of reading a property of
  \<^verbatim>\<open>undefined\<close> or \<^verbatim>\<open>null\<close>.
\<close>

datatype exn = AWSError "nat option" | SyntaxError | TypeError

text \<open>\<^verbatim>\<open>e.statusCode\<close>: \<^verbatim>\<open>undefined\<close> (\<open>None\<close>) on an error that has no such property.\<close>

fun statusCode :: "exn \<Rightarrow> nat option" where
  "statusCode (AWSError c) = c"
| "statusCode SyntaxError = None"
| "statusCode TypeError = None"

text \<open>
  \<^verbatim>\<open>process.env\<close>: the variables that are set, by name; \<^verbatim>\<open>process.env.X\<close> is
  \<^verbatim>\<open>undefined\<close> (\<open>None\<close>) for a name that is not set.
\<close>

type_synonym env = "(string \<times> string) list"

definition getenv :: "env \<Rightarrow> string \<Rightarrow> string option" where
  "getenv env name = map_of env name"

section \<open>The store client (index.tsx, lines 15 to 20)\<close>

record s3_client =
  accessKeyId :: "string option"
  secretAccessKey :: "string option"

text \<open>\<^verbatim>\<open>const s3 = new S3({ credentials: { accessKeyId: ..., secretAccessKey: ... } })\<close>\<close>

definition s3 :: "env \<Rightarrow> s3_client" where
  "s3 env =
     \<lparr>accessKeyId = getenv env ''AWS_S3_ACCESS_KEY_ID'',
      secretAccessKey = getenv env ''AWS_S3_SECRET_ACCESS_KEY''\<rparr>"

text \<open>
  Loading the module is the program's start. The only statement of the module that does
  anything then is the construction of the client above; the module has no check of the
  environment and no \<^verbatim>\<open>throw\<close>, so loading returns the client (\<open>Inr\<close>) whatever
  the environment holds.
\<close>

definition module_init :: "env \<Rightarrow> exn + s3_client" where
  "module_init env = Inr (s3 env)"

record getObject_request =
  Bucket :: "string option"
  Key :: string

record s3_object =
  Body :: "string option"

text \<open>
  \<^verbatim>\<open>s3.getObject(params).promise()\<close> is a call of the AWS SDK to the remote service:
  it is a parameter of the model. Awaiting it gives the object (\<open>Inr\<close>) or throws
  (\<open>Inl\<close>).
\<close>

type_synonym s3_service = "s3_client \<Rightarrow> getObject_request \<Rightarrow> exn + s3_object"

section \<open>getStaticProps (index.tsx, lines 22 to 63)\<close>

record preview_data =
  snapshotId :: string

text \<open>
  The argument of \<^verbatim>\<open>getStaticProps\<close>. \<^verbatim>\<open>previewData\<close> is \<^verbatim>\<open>undefined\<close>
  (\<open>None\<close>) when nothing has been set; the source casts it to
  \<^verbatim>\<open>{ snapshotId: string }\<close> when \<^verbatim>\<open>preview\<close> holds.
\<close>

record static_context =
  preview :: bool
  previewData :: "preview_data option"

text \<open>
  The props of the page. The three \<^verbatim>\<open>return\<close> statements give objects of three
  shapes; a property a shape does not have is \<^verbatim>\<open>undefined\<close> (\<open>None\<close>).
\<close>

record props =
  isPreview :: bool
  props_snapshotId :: "string option"
  contents :: "json option"
  hasError :: "bool option"
  message :: "string option"

definition msg_not_exist :: string where
  "msg_not_exist = ''The requested preview edit does not exist!''"

definition msg_unknown :: string where
  "msg_unknown =
     ''An unknown error has occurred. Please refresh the page or exit Preview Mode.''"

text \<open>
  The body of the \<^verbatim>\<open>try\<close> block (lines 36 to 46). \<^verbatim>\<open>JSON.parse\<close> is the
  runtime's: a parameter, \<open>None\<close> where it throws its \<^verbatim>\<open>SyntaxError\<close>.
  \<^verbatim>\<open>object.Body.toString()\<close> throws a \<^verbatim>\<open>TypeError\<close> when the object has no body.
\<close>

definition getStaticProps_try ::
  "s3_service \<Rightarrow> (string \<Rightarrow> json option) \<Rightarrow> env \<Rightarrow> string \<Rightarrow> exn + props" where
  "getStaticProps_try S3_getObject JSON_parse env sid =
     (case S3_getObject (s3 env)
             \<lparr>Bucket = getenv env ''AWS_S3_BUCKET'', Key = sid @ ''.json''\<rparr> of
        Inl e \<Rightarrow> Inl e
      | Inr object \<Rightarrow>
          (case Body object of
             None \<Rightarrow> Inl TypeError
           | Some text \<Rightarrow>
               (case JSON_parse text of
                  None \<Rightarrow> Inl SyntaxError
                | Some c \<Rightarrow>
                    Inr \<lparr>isPreview = True, props_snapshotId = Some sid, contents = Some c,
                         hasError = None, message = None\<rparr>)))"

text \<open>The \<^verbatim>\<open>catch (e)\<close> block (lines 47 to 60).\<close>

definition getStaticProps_catch :: "exn \<Rightarrow> props" where
  "getStaticProps_catch e =
     \<lparr>isPreview = False, props_snapshotId = None, contents = None, hasError = Some True,
      message = Some (if statusCode e = Some 403 then msg_not_exist else msg_unknown)\<rparr>"

text \<open>
  The whole function. The destructuring of \<^verbatim>\<open>previewData\<close> (line 32) stands before
  the \<^verbatim>\<open>try\<close>: on \<^verbatim>\<open>undefined\<close> it throws out of the function (\<open>Inl\<close>).
\<close>

definition getStaticProps ::
  "s3_service \<Rightarrow> (string \<Rightarrow> json option) \<Rightarrow> env \<Rightarrow> static_context \<Rightarrow> exn + props" where
  "getStaticProps S3_getObject JSON_parse env ctx =
     (if preview ctx then
        (case previewData ctx of
           None \<Rightarrow> Inl TypeError
         | Some pd \<Rightarrow>
             (case getStaticProps_try S3_getObject JSON_parse env (snapshotId pd) of
                Inr p \<Rightarrow> Inr p
              | Inl e \<Rightarrow> Inr (getStaticProps_catch e)))
      else
        Inr \<lparr>isPreview = False, props_snapshotId = None, contents = None, hasError = None,
             message = None\<rparr>)"

section \<open>The document and Edit Capture (index.tsx, lines 89 to 92)\<close>

text \<open>
  An element of the document: its attributes, the text the browser gives as its
  \<^verbatim>\<open>innerText\<close>, and its child elements in document order.
\<close>

datatype node = Element (attributes: "(string \<times> string) list") (innerText: string) (childNodes: "node list")

definition getAttribute :: "node \<Rightarrow> string \<Rightarrow> string option" where
  "getAttribute n name = map_of (attributes n) name"

text \<open>The \<^verbatim>\<open>id\<close> property of an element: its attribute, the empty string when it has none.\<close>

definition node_id :: "node \<Rightarrow> string" where
  "node_id n = (case getAttribute n ''id'' of Some v \<Rightarrow> v | None \<Rightarrow> [])"

text \<open>
  Every element below \<open>n\<close> with its parent element, in document order (an element
  before its descendants, siblings left to right). The root has no parent element and
  is not listed: a selector with a child combinator cannot match it.
\<close>

fun tree_order :: "node \<Rightarrow> (node \<times> node) list" where
  "tree_order (Element as t cs) =
     concat (map (\<lambda>c. (Element as t cs, c) # tree_order c) cs)"

text \<open>The selector \<^verbatim>\<open>[id] > [contenteditable=true]\<close>, on an element and its parent.\<close>

definition matches_selector :: "node \<times> node \<Rightarrow> bool" where
  "matches_selector pc =
     (getAttribute (fst pc) ''id'' \<noteq> None \<and>
      getAttribute (snd pc) ''contenteditable'' = Some ''true'')"

text \<open>
  \<^verbatim>\<open>document.querySelectorAll("[id] > [contenteditable=true]")\<close>: the elements that
  match, in document order, each with its \<^verbatim>\<open>parentNode\<close>.
\<close>

definition querySelectorAll :: "node \<Rightarrow> (node \<times> node) list" where
  "querySelectorAll document = filter matches_selector (tree_order document)"

text \<open>
  A document whose regions stand side by side in the given order: each region is a
  container that has the identifier, with one child that holds the text and says
  whether it is editable.
\<close>

definition region_node :: "string \<times> bool \<times> string \<Rightarrow> node" where
  "region_node r =
     (case r of (i, editable, t) \<Rightarrow>
        Element [(''id'', i)] t
          [Element [(''contenteditable'', if editable then ''true'' else ''false'')] t []])"

definition regions_document :: "(string \<times> bool \<times> string) list \<Rightarrow> node" where
  "regions_document rs = Element [] (concat (map (\<lambda>(i, editable, t). t) rs)) (map region_node rs)"

record FieldEdit =
  edit_id :: string
  edit_innerText :: string

text \<open>
  \<^verbatim>\<open>[].slice.call(els).map(({ parentNode: { id }, innerText }) => ({ id, innerText }))\<close>
\<close>

definition persistContents :: "node \<Rightarrow> FieldEdit list" where
  "persistContents document =
     map (\<lambda>(parentNode, el). \<lparr>edit_id = node_id parentNode, edit_innerText = innerText el\<rparr>)
       (querySelectorAll document)"

text \<open>The object literal \<^verbatim>\<open>{ id, innerText }\<close> and the array of them, as JSON values.\<close>

definition edit_json :: "FieldEdit \<Rightarrow> json" where
  "edit_json e = JObj [(''id'', JStr (edit_id e)), (''innerText'', JStr (edit_innerText e))]"

definition edits_json :: "FieldEdit list \<Rightarrow> json" where
  "edits_json es = JArr (map edit_json es)"

section \<open>The state of the page and the share action (index.tsx, lines 69 to 110)\<close>

record fetch_request =
  url :: string
  http_method :: string
  body :: string
  content_type :: string

text \<open>
  The hooks of \<^verbatim>\<open>Home\<close> (\<^verbatim>\<open>useState\<close>, \<^verbatim>\<open>useRef\<close>) and, for the network, the
  calls of \<^verbatim>\<open>fetch\<close> made so far (\<open>issued\<close>) and those whose promise has not settled
  (\<open>in_flight\<close>). \<open>currentSnapshotId\<close> holds any value: \<open>None\<close> is \<^verbatim>\<open>undefined\<close>.
\<close>

record client_state =
  currentSnapshotId :: "json option"
  isEdit :: bool
  hasSaveRequest :: bool
  isSharingView :: bool
  in_flight :: "fetch_request list"
  issued :: "fetch_request list"

text \<open>\<^verbatim>\<open>useState(null)\<close>, \<^verbatim>\<open>useState(false)\<close>, \<^verbatim>\<open>useRef(false)\<close>, \<^verbatim>\<open>useState(false)\<close>.\<close>

definition initial_state :: client_state where
  "initial_state =
     \<lparr>currentSnapshotId = Some JNull, isEdit = False, hasSaveRequest = False,
      isSharingView = False, in_flight = [], issued = []\<rparr>"

definition clearSnapshot :: "client_state \<Rightarrow> client_state" where
  "clearSnapshot s = s\<lparr>currentSnapshotId := Some JNull\<rparr>"

definition toggleEdit :: "client_state \<Rightarrow> client_state" where
  "toggleEdit s = s\<lparr>isEdit := \<not> isEdit s\<rparr>"

definition setSharing :: "bool \<Rightarrow> client_state \<Rightarrow> client_state" where
  "setSharing sharing s = s\<lparr>hasSaveRequest := sharing, isSharingView := sharing\<rparr>"

text \<open>
  The synchronous part of \<^verbatim>\<open>share\<close> (lines 86 to 99): the guard, the capture and the
  call of \<^verbatim>\<open>fetch\<close>. \<^verbatim>\<open>JSON.stringify\<close> is the runtime's: a parameter.
\<close>

definition share :: "(json \<Rightarrow> string) \<Rightarrow> node \<Rightarrow> client_state \<Rightarrow> client_state" where
  "share JSON_stringify document s =
     (if hasSaveRequest s then s
      else
        let s1 = setSharing True s;
            req = \<lparr>url = ''/api/save'', http_method = ''POST'',
                   body = JSON_stringify (edits_json (persistContents document)),
                   content_type = ''application/json''\<rparr>
        in s1\<lparr>in_flight := in_flight s1 @ [req], issued := issued s1 @ [req]\<rparr>)"

text \<open>
  How the promise of \<^verbatim>\<open>fetch\<close> settles: it rejects (no response), or it resolves with
  a response, of which the page reads only \<^verbatim>\<open>res.json()\<close> (\<open>None\<close> where that
  rejects: the body is not JSON). The status is never read (line 101).
\<close>

record response =
  status :: nat
  json_body :: "json option"

datatype fetch_outcome = Rejected | Resolved response

text \<open>
  The parameter pattern \<^verbatim>\<open>({ snapshotId })\<close> of line 104: a \<^verbatim>\<open>TypeError\<close> on
  \<^verbatim>\<open>null\<close>, the property of an object, \<^verbatim>\<open>undefined\<close> on any other value.
\<close>

fun destructure_snapshotId :: "json \<Rightarrow> exn + json option" where
  "destructure_snapshotId JNull = Inl TypeError"
| "destructure_snapshotId (JObj kvs) = Inr (map_of kvs ''snapshotId'')"
| "destructure_snapshotId _ = Inr None"

text \<open>
  The promise chain of lines 100 to 109, run when the oldest outstanding request
  settles: the two \<^verbatim>\<open>then\<close> callbacks run while nothing has rejected, and the
  \<^verbatim>\<open>finally\<close> callback runs in every case.
\<close>

definition settle :: "fetch_outcome \<Rightarrow> client_state \<Rightarrow> client_state" where
  "settle outcome s =
     (case in_flight s of
        [] \<Rightarrow> s
      | req # rest \<Rightarrow>
          let s1 =
            (case outcome of
               Rejected \<Rightarrow> s
             | Resolved res \<Rightarrow>
                 (case json_body res of
                    None \<Rightarrow> s
                  | Some v \<Rightarrow>
                      (case destructure_snapshotId v of
                         Inl e \<Rightarrow> s
                       | Inr sid \<Rightarrow> s\<lparr>currentSnapshotId := sid\<rparr>)))
          in (setSharing False s1)\<lparr>in_flight := rest\<rparr>)"

text \<open>What can happen to the page once it is mounted, and a run of such events.\<close>

datatype event = Share node | Settle fetch_outcome | ToggleEdit | ClearSnapshot

fun step :: "(json \<Rightarrow> string) \<Rightarrow> event \<Rightarrow> client_state \<Rightarrow> client_state" where
  "step JSON_stringify (Share document) s = share JSON_stringify document s"
| "step JSON_stringify (Settle outcome) s = settle outcome s"
| "step JSON_stringify ToggleEdit s = toggleEdit s"
| "step JSON_stringify ClearSnapshot s = clearSnapshot s"

fun run :: "(json \<Rightarrow> string) \<Rightarrow> event list \<Rightarrow> client_state \<Rightarrow> client_state" where
  "run JSON_stringify [] s = s"
| "run JSON_stringify (e # es) s = run JSON_stringify es (step JSON_stringify e s)"

section \<open>Home (index.tsx, lines 65 to 280)\<close>

text \<open>
  What \<^verbatim>\<open>Home\<close> returns, as the list of its elements in document order; the
  \<^verbatim>\<open>div\<close>s that only group them are left out. A \<open>Malleable\<close> carries the props the
  page passes to the component: \<^verbatim>\<open>id\<close>, \<^verbatim>\<open>isActive\<close>, \<^verbatim>\<open>edits\<close> and, as
  \<^verbatim>\<open>children\<close>, the text of the default markup (\<^verbatim>\<open>as\<close> and \<^verbatim>\<open>className\<close> only
  style it). \<open>Alert\<close> is the \<^verbatim>\<open>aside\<close> with its link: the address and the text.
\<close>

datatype element =
    Head string
  | ShareLinkDialog json
  | TextNode string
  | Alert string string
  | Malleable string bool "json option" string
  | Snapshot bool
  | Edit

text \<open>The regions of the page with their default text. The three emoji are their UTF-8 bytes.\<close>

definition page_regions :: "(string \<times> string) list" where
  "page_regions =
     [(''title'', ''My Static Site''),
      (''feature-1-emoji'', [CHR 0xE2, CHR 0x9A, CHR 0xA1]),
      (''feature-1-text'', ''Blazing fast''),
      (''feature-2-emoji'', [CHR 0xF0, CHR 0x9F, CHR 0x93, CHR 0xA1]),
      (''feature-2-text'', ''Always available''),
      (''feature-3-emoji'', [CHR 0xF0, CHR 0x9F, CHR 0x8F, CHR 0x8E]),
      (''feature-3-text'', ''Lighthouse 100''),
      (''title-2'',
       ''This demonstrates a static website generated using Next.js' new Static Site Generation (SSG).''),
      (''explanation-1-inspect'', ''To inspect the response from our edge network, run:''),
      (''explanation-1-pre-curl'', ''curl -sI https://preview.ssg.how | grep x-now''),
      (''explanation-1-pre-response'',
       ''x-now-cache: HIT'' @ [CHR 0x0A] @ ''x-now-trace: sfo1'' @ [CHR 0x0A] @
       ''x-now-id: sfo1:7c7lc-1583269874370-6a496f5a4e91''),
      (''explanation-2'',
       ''When people visit this site, the response always comes instantly from their nearest location.''),
      (''explanation-3'',
       ''Unlike traditional static solutions, however, you can generate previews of edits that you can share with anyone you choose.''),
      (''explanation-4'',
       ''This makes Next.js the most optimal framework to integrate into your Headless CMS workflow.'')]"

text \<open>JavaScript's truthiness, on the values \<open>currentSnapshotId\<close> can hold.\<close>

fun truthy :: "json option \<Rightarrow> bool" where
  "truthy None = False"
| "truthy (Some JNull) = False"
| "truthy (Some (JBool b)) = b"
| "truthy (Some (JNum n)) = (n \<noteq> 0)"
| "truthy (Some (JStr s)) = (s \<noteq> [])"
| "truthy (Some (JArr xs)) = True"
| "truthy (Some (JObj kvs)) = True"

text \<open>
  \<^verbatim>\<open>{currentSnapshotId && <ShareLinkDialog snapshotId={currentSnapshotId} ... />}\<close>:
  the dialog for a truthy value; for a falsy one React renders the value itself, which
  shows nothing but for the number zero.
\<close>

fun share_dialog :: "json option \<Rightarrow> element list" where
  "share_dialog None = []"
| "share_dialog (Some v) =
     (if truthy (Some v) then [ShareLinkDialog v]
      else (case v of JNum n \<Rightarrow> [TextNode ''0''] | _ \<Rightarrow> []))"

text \<open>Line 112: \<^verbatim>\<open>const edits = props.isPreview ? props.contents : []\<close>\<close>

definition Home_edits :: "props \<Rightarrow> json option" where
  "Home_edits p = (if isPreview p then contents p else Some (JArr []))"

definition Home :: "props \<Rightarrow> client_state \<Rightarrow> element list" where
  "Home p s =
     [Head ''Next.js | Preview Mode''] @
     share_dialog (currentSnapshotId s) @
     (if isPreview p \<or> hasError p = Some True then [Alert ''/api/exit'' ''Preview Mode''] else []) @
     map (\<lambda>(i, children). Malleable i (isEdit s) (Home_edits p) children) page_regions @
     [if isEdit s then Snapshot (isSharingView s) else Edit]"

section \<open>The parts of the repository that index.tsx calls\<close>

text \<open>
  Modelled from the spec: the blob store behind the save endpoint and the AWS client
  (spec 4.1). \<^verbatim>\<open>put\<close> stores a value under a key, overwriting, and fails with
  \<open>StoreUnavailable\<close> on a network or authorization failure; \<^verbatim>\<open>get\<close> fails with
  \<open>NotFound\<close> for a key that does not exist and with \<open>StoreUnavailable\<close> otherwise.
\<close>

datatype store_error = StoreUnavailable | NotFound | PersistFailure

record blob_store =
  objects :: "string \<rightharpoonup> string"
  available :: bool

definition blob_put :: "string \<Rightarrow> string \<Rightarrow> blob_store \<Rightarrow> store_error + blob_store" where
  "blob_put k v st =
     (if available st then Inr (st\<lparr>objects := (objects st)(k \<mapsto> v)\<rparr>) else Inl StoreUnavailable)"

definition blob_get :: "string \<Rightarrow> blob_store \<Rightarrow> store_error + string" where
  "blob_get k st =
     (if available st then (case objects st k of None \<Rightarrow> Inl NotFound | Some v \<Rightarrow> Inr v)
      else Inl StoreUnavailable)"

text \<open>
  Modelled from the spec: \<^verbatim>\<open>createSnapshot\<close> of the save endpoint (api/save, spec 4.3
  and 6), which is not in index.tsx. It generates a new identifier (\<open>new_id\<close>, any
  generator), serializes the edits as the JSON array of \<^verbatim>\<open>{id, innerText}\<close> and puts
  them under the identifier with the extension \<^verbatim>\<open>.json\<close>; it returns the identifier,
  or fails with \<open>PersistFailure\<close> when the store call fails.
\<close>

definition createSnapshot ::
  "(blob_store \<Rightarrow> string) \<Rightarrow> (json \<Rightarrow> string) \<Rightarrow> FieldEdit list \<Rightarrow> blob_store \<Rightarrow>
     store_error + string \<times> blob_store" where
  "createSnapshot new_id JSON_stringify edits st =
     (let sid = new_id st in
      case blob_put (sid @ ''.json'') (JSON_stringify (edits_json edits)) st of
        Inl e \<Rightarrow> Inl PersistFailure
      | Inr st' \<Rightarrow> Inr (sid, st'))"

text \<open>
  Modelled from the spec: the service \<^verbatim>\<open>s3.getObject\<close> talks to, when the bucket is the
  blob store \<open>st\<close>. A key that does not exist is answered with status 403 (the bucket is
  private: the comment of lines 53 and 54), an unavailable store with an error that has
  no status.
\<close>

definition s3_of_store :: "blob_store \<Rightarrow> s3_service" where
  "s3_of_store st client req =
     (case blob_get (Key req) st of
        Inr v \<Rightarrow> Inr \<lparr>Body = Some v\<rparr>
      | Inl NotFound \<Rightarrow> Inl (AWSError (Some 403))
      | Inl _ \<Rightarrow> Inl (AWSError None))"

text \<open>
  Modelled from the spec: the \<^verbatim>\<open>Malleable\<close> component (components/malleable, spec 4.5),
  which is not in index.tsx. It reads its \<^verbatim>\<open>edits\<close> prop as a sequence of
  \<^verbatim>\<open>{id, innerText}\<close> and shows the text of the edit whose identifier is its own, or
  its default content when no edit matches. The spec requires identifiers to be unique
  within a snapshot; \<open>overlay\<close> takes the first match.
\<close>

fun decode_edit :: "json \<Rightarrow> FieldEdit option" where
  "decode_edit (JObj kvs) =
     (case (map_of kvs ''id'', map_of kvs ''innerText'') of
        (Some (JStr i), Some (JStr t)) \<Rightarrow> Some \<lparr>edit_id = i, edit_innerText = t\<rparr>
      | _ \<Rightarrow> None)"
| "decode_edit _ = None"

fun decode_edits :: "json \<Rightarrow> FieldEdit list option" where
  "decode_edits (JArr js) = those (map decode_edit js)"
| "decode_edits _ = None"

definition overlay :: "FieldEdit list \<Rightarrow> string \<Rightarrow> string \<Rightarrow> string" where
  "overlay edits i children =
     (case find (\<lambda>e. edit_id e = i) edits of
        Some e \<Rightarrow> edit_innerText e
      | None \<Rightarrow> children)"

text \<open>
  The region an element of the page shows, with its text: defined for a
  \<open>Malleable\<close> whose \<^verbatim>\<open>edits\<close> are a sequence of edits.
\<close>

fun rendered_region :: "element \<Rightarrow> (string \<times> string) option" where
  "rendered_region (Malleable i active (Some j) children) =
     map_option (\<lambda>es. (i, overlay es i children)) (decode_edits j)"
| "rendered_region _ = None"

definition rendered_regions :: "element list \<Rightarrow> (string \<times> string) list" where
  "rendered_regions els = List.map_filter rendered_region els"

section \<open>Notions the statements use\<close>

text \<open>
  The single-flight invariant of the share action: at most one request is outstanding,
  and the flag \<^verbatim>\<open>hasSaveRequest.current\<close> is set exactly while one is.
\<close>

definition single_flight :: "client_state \<Rightarrow> bool" where
  "single_flight s = (length (in_flight s) \<le> 1 \<and> (hasSaveRequest s = (in_flight s \<noteq> [])))"

fun is_Settle :: "event \<Rightarrow> bool" where
  "is_Settle (Settle outcome) = True"
| "is_Settle _ = False"

text \<open>
  The end-to-end example of the spec (section 8): the batch with the one edit of
  \<^verbatim>\<open>title\<close> and its JSON text. \<open>example_stringify\<close> and \<open>example_parse\<close> are
  \<^verbatim>\<open>JSON.stringify\<close> and \<^verbatim>\<open>JSON.parse\<close> tabulated at the values the examples
  below use (the batch and the empty array; their texts); the examples evaluate them
  nowhere else.
\<close>

definition hello_edits :: "FieldEdit list" where
  "hello_edits = [\<lparr>edit_id = ''title'', edit_innerText = ''Hello''\<rparr>]"

definition hello_text :: string where
  \<open>hello_text = ''[{"id":"title","innerText":"Hello"}]''\<close>

definition example_stringify :: "json \<Rightarrow> string" where
  "example_stringify j =
     (if j = edits_json hello_edits then hello_text
      else if j = JArr [] then ''[]''
      else ''null'')"

definition example_parse :: "string \<Rightarrow> json option" where
  "example_parse t =
     (if t = hello_text then Some (edits_json hello_edits)
      else if t = ''[]'' then Some (JArr [])
      else None)"

definition empty_store :: blob_store where
  "empty_store = \<lparr>objects = Map.empty, available = True\<rparr>"

section \<open>getStaticProps: the error path\<close>

lemma getStaticProps_preview:
  "getStaticProps S P env \<lparr>preview = True, previewData = Some pd\<rparr> =
     (case getStaticProps_try S P env (snapshotId pd) of
        Inr p \<Rightarrow> Inr p
      | Inl e \<Rightarrow> Inr (getStaticProps_catch e))"
  by (simp add: getStaticProps_def)

lemma try_fetch_fails:
  "S (s3 env) \<lparr>Bucket = getenv env ''AWS_S3_BUCKET'', Key = sid @ ''.json''\<rparr> = Inl e \<Longrightarrow>
   getStaticProps_try S P env sid = Inl e"
  by (simp add: getStaticProps_try_def)

lemma try_malformed:
  "S (s3 env) \<lparr>Bucket = getenv env ''AWS_S3_BUCKET'', Key = sid @ ''.json''\<rparr> = Inr obj \<Longrightarrow>
   Body obj = Some t \<Longrightarrow> P t = None \<Longrightarrow>
   getStaticProps_try S P env sid = Inl SyntaxError"
  by (simp add: getStaticProps_try_def)

lemma try_isPreview:
  "getStaticProps_try S P env sid = Inr p \<Longrightarrow> isPreview p \<and> hasError p = None"
  by (auto simp: getStaticProps_try_def split: sum.splits option.splits)

lemma getStaticProps_exclusive:
  "getStaticProps S P env ctx = Inr p \<Longrightarrow> \<not> (isPreview p \<and> hasError p = Some True)"
  by (auto simp: getStaticProps_def getStaticProps_try_def getStaticProps_catch_def
      split: if_splits option.splits sum.splits)

lemma catch_fields:
  "isPreview (getStaticProps_catch e) = False"
  "hasError (getStaticProps_catch e) = Some True"
  "contents (getStaticProps_catch e) = None"
  "Home_edits (getStaticProps_catch e) = Some (JArr [])"
  by (simp_all add: getStaticProps_catch_def Home_edits_def)

lemma Home_error_page:
  "Home (getStaticProps_catch e) s =
     [Head ''Next.js | Preview Mode''] @ share_dialog (currentSnapshotId s) @
     [Alert ''/api/exit'' ''Preview Mode''] @
     map (\<lambda>(i, children). Malleable i (isEdit s) (Some (JArr [])) children) page_regions @
     [if isEdit s then Snapshot (isSharingView s) else Edit]"
  by (simp add: Home_def catch_fields)

text \<open>
  Claim C3. When the store read of a preview render fails, the props carry one of two
  fixed messages: the does-not-exist message exactly when the error's status is 403,
  the generic message for every other failure. Nothing else of the provider's error
  reaches the props.
\<close>

theorem store_failure_message:
  assumes "S3_getObject (s3 env)
             \<lparr>Bucket = getenv env ''AWS_S3_BUCKET'', Key = snapshotId pd @ ''.json''\<rparr> = Inl e"
  shows "getStaticProps S3_getObject JSON_parse env \<lparr>preview = True, previewData = Some pd\<rparr> =
           Inr \<lparr>isPreview = False, props_snapshotId = None, contents = None,
                hasError = Some True,
                message = Some (if statusCode e = Some 403 then msg_not_exist else msg_unknown)\<rparr>"
  using assms
  by (simp add: getStaticProps_preview getStaticProps_catch_def try_fetch_fails)

theorem store_failure_message_witness:
  "getStaticProps (\<lambda>client req. Inl (AWSError (Some 403))) (\<lambda>t. None) []
       \<lparr>preview = True, previewData = Some \<lparr>snapshotId = ''abc123''\<rparr>\<rparr> =
     Inr \<lparr>isPreview = False, props_snapshotId = None, contents = None, hasError = Some True,
          message = Some ''The requested preview edit does not exist!''\<rparr> \<and>
   getStaticProps (\<lambda>client req. Inl (AWSError (Some 404))) (\<lambda>t. None) []
       \<lparr>preview = True, previewData = Some \<lparr>snapshotId = ''abc123''\<rparr>\<rparr> =
     Inr \<lparr>isPreview = False, props_snapshotId = None, contents = None, hasError = Some True,
          message =
            Some ''An unknown error has occurred. Please refresh the page or exit Preview Mode.''\<rparr>"
  using store_failure_message [of "\<lambda>client req. Inl (AWSError (Some 403))" "[]"
          "\<lparr>snapshotId = ''abc123''\<rparr>" "AWSError (Some 403)" "\<lambda>t. None"]
        store_failure_message [of "\<lambda>client req. Inl (AWSError (Some 404))" "[]"
          "\<lparr>snapshotId = ''abc123''\<rparr>" "AWSError (Some 404)" "\<lambda>t. None"]
  by (simp add: msg_not_exist_def msg_unknown_def)

text \<open>
  Claim C10. For every preview request (\<^verbatim>\<open>preview\<close> set, with the preview data the
  framework hands over), \<^verbatim>\<open>getStaticProps\<close> returns props and throws nothing;
  \<^verbatim>\<open>isPreview\<close> and \<^verbatim>\<open>hasError\<close> are never both true, on this or any other
  request; whatever the \<^verbatim>\<open>try\<close> block throws, malformed JSON in the stored object
  included, ends in the props of the \<^verbatim>\<open>catch\<close> block, with \<^verbatim>\<open>isPreview\<close> false
  and \<^verbatim>\<open>hasError\<close> true, and the page then passes the empty list of edits to every
  region.
\<close>

theorem getStaticProps_catches:
  assumes "preview ctx" and "previewData ctx = Some pd"
  shows "\<exists>p. getStaticProps S3_getObject JSON_parse env ctx = Inr p \<and>
           \<not> (isPreview p \<and> hasError p = Some True) \<and>
           (\<forall>e. getStaticProps_try S3_getObject JSON_parse env (snapshotId pd) = Inl e \<longrightarrow>
                p = getStaticProps_catch e \<and> isPreview p = False \<and> hasError p = Some True \<and>
                Home_edits p = Some (JArr []) \<and>
                (\<forall>s. Home p s =
                   [Head ''Next.js | Preview Mode''] @ share_dialog (currentSnapshotId s) @
                   [Alert ''/api/exit'' ''Preview Mode''] @
                   map (\<lambda>(i, children). Malleable i (isEdit s) (Some (JArr [])) children)
                     page_regions @
                   [if isEdit s then Snapshot (isSharingView s) else Edit])) \<and>
           (\<forall>obj t.
              S3_getObject (s3 env)
                \<lparr>Bucket = getenv env ''AWS_S3_BUCKET'', Key = snapshotId pd @ ''.json''\<rparr> =
                Inr obj \<and> Body obj = Some t \<and> JSON_parse t = None \<longrightarrow>
              p = getStaticProps_catch SyntaxError) \<and>
         (\<forall>any p'. getStaticProps S3_getObject JSON_parse env any = Inr p' \<longrightarrow>
              \<not> (isPreview p' \<and> hasError p' = Some True))"
proof -
  have ctx: "ctx = \<lparr>preview = True, previewData = Some pd\<rparr>"
    using assms by (cases ctx) simp
  have exclusive: "\<forall>any p'. getStaticProps S3_getObject JSON_parse env any = Inr p' \<longrightarrow>
      \<not> (isPreview p' \<and> hasError p' = Some True)"
    using getStaticProps_exclusive [of S3_getObject JSON_parse env] by blast
  have "\<exists>p. getStaticProps S3_getObject JSON_parse env ctx = Inr p \<and>
           \<not> (isPreview p \<and> hasError p = Some True) \<and>
           (\<forall>e. getStaticProps_try S3_getObject JSON_parse env (snapshotId pd) = Inl e \<longrightarrow>
                p = getStaticProps_catch e \<and> isPreview p = False \<and> hasError p = Some True \<and>
                Home_edits p = Some (JArr []) \<and>
                (\<forall>s. Home p s =
                   [Head ''Next.js | Preview Mode''] @ share_dialog (currentSnapshotId s) @
                   [Alert ''/api/exit'' ''Preview Mode''] @
                   map (\<lambda>(i, children). Malleable i (isEdit s) (Some (JArr [])) children)
                     page_regions @
                   [if isEdit s then Snapshot (isSharingView s) else Edit])) \<and>
           (\<forall>obj t.
              S3_getObject (s3 env)
                \<lparr>Bucket = getenv env ''AWS_S3_BUCKET'', Key = snapshotId pd @ ''.json''\<rparr> =
                Inr obj \<and> Body obj = Some t \<and> JSON_parse t = None \<longrightarrow>
              p = getStaticProps_catch SyntaxError)"
  proof (cases "getStaticProps_try S3_getObject JSON_parse env (snapshotId pd)")
    case (Inl e)
    then show ?thesis
      by (auto simp: ctx getStaticProps_preview catch_fields Home_error_page try_malformed)
  next
    case (Inr p)
    then show ?thesis
      using try_isPreview [OF Inr]
      by (auto simp: ctx getStaticProps_preview try_malformed)
  qed
  then show ?thesis
    using exclusive by blast
qed

theorem getStaticProps_catches_witness:
  "\<exists>p. getStaticProps (\<lambda>client req. Inr \<lparr>Body = Some ''{oops''\<rparr>) (\<lambda>t. None) []
          \<lparr>preview = True, previewData = Some \<lparr>snapshotId = ''abc123''\<rparr>\<rparr> = Inr p \<and>
       p = \<lparr>isPreview = False, props_snapshotId = None, contents = None, hasError = Some True,
            message = Some msg_unknown\<rparr> \<and>
       Home_edits p = Some (JArr [])"
  using getStaticProps_catches
    [of "\<lparr>preview = True, previewData = Some \<lparr>snapshotId = ''abc123''\<rparr>\<rparr>"
      "\<lparr>snapshotId = ''abc123''\<rparr>" "\<lambda>client req. Inr \<lparr>Body = Some ''{oops''\<rparr>" "\<lambda>t. None" "[]"]
  by (auto simp: getStaticProps_try_def getStaticProps_catch_def)

text \<open>
  Claim C2. At a preview render whose fetch fails with status 403, \<^verbatim>\<open>getStaticProps\<close>
  puts the does-not-exist message into the props, but the page \<^verbatim>\<open>Home\<close> builds from
  them holds only the title, the alert with the link text \<^verbatim>\<open>Preview Mode\<close>, the
  regions with no edits and the edit button: it is the page built from the same props
  with no message at all (line 113 leaves the message to be handled).
\<close>

theorem error_message_not_rendered:
  "getStaticProps (\<lambda>client req. Inl (AWSError (Some 403))) (\<lambda>t. None) []
       \<lparr>preview = True, previewData = Some \<lparr>snapshotId = ''missing''\<rparr>\<rparr> =
     Inr \<lparr>isPreview = False, props_snapshotId = None, contents = None, hasError = Some True,
          message = Some ''The requested preview edit does not exist!''\<rparr> \<and>
   Home \<lparr>isPreview = False, props_snapshotId = None, contents = None, hasError = Some True,
         message = Some ''The requested preview edit does not exist!''\<rparr> initial_state =
     [Head ''Next.js | Preview Mode'', Alert ''/api/exit'' ''Preview Mode''] @
     map (\<lambda>(i, children). Malleable i False (Some (JArr [])) children) page_regions @ [Edit] \<and>
   Home \<lparr>isPreview = False, props_snapshotId = None, contents = None, hasError = Some True,
         message = Some ''The requested preview edit does not exist!''\<rparr> initial_state =
   Home \<lparr>isPreview = False, props_snapshotId = None, contents = None, hasError = Some True,
         message = None\<rparr> initial_state"
  by (simp add: getStaticProps_def getStaticProps_try_def getStaticProps_catch_def
      msg_not_exist_def Home_def Home_edits_def initial_state_def)

text \<open>
  Property X1. The page does not depend on the message of its props: \<^verbatim>\<open>Home\<close>
  builds the same elements whatever the message is.
\<close>

theorem Home_ignores_message: "Home (p\<lparr>message := m\<rparr>) s = Home p s"
  by (simp add: Home_def Home_edits_def)

section \<open>Configuration\<close>

text \<open>
  Claim C9, as the code has it. Loading the module never fails: it builds the client from
  whatever the environment holds, absent values included. The bucket name is read when
  a preview render issues its request, and a failure of the store there ends in the
  props of the \<^verbatim>\<open>catch\<close> block.
\<close>

theorem missing_config_first_use:
  "module_init env =
     Inr \<lparr>accessKeyId = getenv env ''AWS_S3_ACCESS_KEY_ID'',
          secretAccessKey = getenv env ''AWS_S3_SECRET_ACCESS_KEY''\<rparr> \<and>
   (\<forall>e. S3_getObject (s3 env)
           \<lparr>Bucket = getenv env ''AWS_S3_BUCKET'', Key = snapshotId pd @ ''.json''\<rparr> = Inl e \<longrightarrow>
        getStaticProps S3_getObject JSON_parse env \<lparr>preview = True, previewData = Some pd\<rparr> =
          Inr (getStaticProps_catch e))"
  by (simp add: module_init_def s3_def getStaticProps_preview try_fetch_fails)

theorem missing_config_first_use_witness:
  "module_init [] = Inr \<lparr>accessKeyId = None, secretAccessKey = None\<rparr> \<and>
   getStaticProps
       (\<lambda>client req. case Bucket req of None \<Rightarrow> Inl (AWSError None)
                      | Some b \<Rightarrow> Inr \<lparr>Body = Some ''[]''\<rparr>)
       (\<lambda>t. None) [] \<lparr>preview = True, previewData = Some \<lparr>snapshotId = ''abc123''\<rparr>\<rparr> =
     Inr \<lparr>isPreview = False, props_snapshotId = None, contents = None, hasError = Some True,
          message = Some msg_unknown\<rparr>"
  using missing_config_first_use
    [of "[]" "\<lambda>client req. case Bucket req of None \<Rightarrow> Inl (AWSError None)
                           | Some b \<Rightarrow> Inr \<lparr>Body = Some ''[]''\<rparr>"
      "\<lparr>snapshotId = ''abc123''\<rparr>" "\<lambda>t. None"]
  by (simp add: getenv_def getStaticProps_catch_def)

text \<open>
  Claim C9, as the spec states it, fails: with every option absent from the
  environment, loading the module returns the client and does not fail.
\<close>

theorem module_init_no_config_counterexample:
  "getenv [] ''AWS_S3_ACCESS_KEY_ID'' = None \<and> getenv [] ''AWS_S3_SECRET_ACCESS_KEY'' = None \<and>
   getenv [] ''AWS_S3_BUCKET'' = None \<and>
   module_init [] = Inr \<lparr>accessKeyId = None, secretAccessKey = None\<rparr>"
  by (simp add: module_init_def s3_def getenv_def)

section \<open>Edit Capture\<close>

lemma tree_order_region_node:
  "tree_order (region_node (i, editable, t)) =
     [(region_node (i, editable, t),
       Element [(''contenteditable'', if editable then ''true'' else ''false'')] t [])]"
  by (simp add: region_node_def)

lemma filter_region_pairs:
  "filter matches_selector (concat (map (\<lambda>c. (root, c) # tree_order c) (map region_node rs))) =
   map (\<lambda>(i, editable, t).
          (region_node (i, editable, t), Element [(''contenteditable'', ''true'')] t []))
     (filter (\<lambda>(i, editable, t). editable) rs)"
proof (induction rs)
  case Nil
  show ?case by simp
next
  case (Cons r rs)
  obtain i editable t where r: "r = (i, editable, t)"
    by (cases r) auto
  have container: "\<not> matches_selector (root, region_node (i, editable, t))"
    by (simp add: matches_selector_def region_node_def getAttribute_def)
  show ?case
    using Cons.IH container
    by (simp add: r tree_order_region_node)
       (simp add: matches_selector_def region_node_def getAttribute_def)
qed

lemma persistContents_regions:
  "persistContents (regions_document rs) =
     map (\<lambda>(i, editable, t). \<lparr>edit_id = i, edit_innerText = t\<rparr>)
       (filter (\<lambda>(i, editable, t). editable) rs)"
proof -
  have "querySelectorAll (regions_document rs) =
          map (\<lambda>(i, editable, t).
                 (region_node (i, editable, t), Element [(''contenteditable'', ''true'')] t []))
            (filter (\<lambda>(i, editable, t). editable) rs)"
    unfolding querySelectorAll_def regions_document_def tree_order.simps
    by (rule filter_region_pairs)
  then show ?thesis
    by (simp add: persistContents_def split_def comp_def node_id_def getAttribute_def
        region_node_def)
qed

lemma captured_from_regions:
  "list_all2
     (\<lambda>e (parentNode, el).
        getAttribute parentNode ''id'' = Some (edit_id e) \<and>
        getAttribute el ''contenteditable'' = Some ''true'' \<and>
        innerText el = edit_innerText e)
     (persistContents document) (querySelectorAll document)"
  by (auto simp: persistContents_def querySelectorAll_def list_all2_map1 list_all2_same
      matches_selector_def node_id_def)

lemma no_region_editable:
  "filter (\<lambda>(i, editable, t). editable) (map (\<lambda>(i, t). (i, False, t)) rs) = []"
  by (induction rs) auto

text \<open>
  Claim C5. Edit Capture gives one edit for each element of the document that is marked
  \<^verbatim>\<open>contenteditable=true\<close> and whose parent has an identifier: the parent's identifier
  with the element's text, in document order; the edits and the matching elements
  correspond one to one, in the same order, and each edit carries the \<^verbatim>\<open>id\<close>
  attribute of its container. On a page of regions laid out in some order, it gives the
  editable regions' identifiers and texts in that order.
\<close>

theorem edit_capture_document_order:
  "persistContents document =
     map (\<lambda>(parentNode, el). \<lparr>edit_id = node_id parentNode, edit_innerText = innerText el\<rparr>)
       (filter matches_selector (tree_order document)) \<and>
   length (persistContents document) = length (filter matches_selector (tree_order document)) \<and>
   subseq (querySelectorAll document) (tree_order document) \<and>
   list_all2
     (\<lambda>e (parentNode, el).
        getAttribute parentNode ''id'' = Some (edit_id e) \<and>
        getAttribute el ''contenteditable'' = Some ''true'' \<and>
        innerText el = edit_innerText e)
     (persistContents document) (querySelectorAll document) \<and>
   persistContents (regions_document rs) =
     map (\<lambda>(i, editable, t). \<lparr>edit_id = i, edit_innerText = t\<rparr>)
       (filter (\<lambda>(i, editable, t). editable) rs)"
  by (simp add: persistContents_regions captured_from_regions)
     (simp add: persistContents_def querySelectorAll_def)

theorem edit_capture_document_order_witness:
  "persistContents
     (regions_document [(''b'', True, ''second''), (''x'', False, ''fixed''), (''a'', True, ''first'')]) =
     [\<lparr>edit_id = ''b'', edit_innerText = ''second''\<rparr>, \<lparr>edit_id = ''a'', edit_innerText = ''first''\<rparr>]"
  using edit_capture_document_order [of "Element [] [] []"
      "[(''b'', True, ''second''), (''x'', False, ''fixed''), (''a'', True, ''first'')]"]
  by simp

text \<open>
  Claim C7. Edit Capture returns the empty sequence exactly when no element of the
  document matches the selector; in particular on a page none of whose regions is
  editable and on a document that has no element but its root. The capture has no
  failing path: it is a list for every document.
\<close>

theorem edit_capture_empty:
  "(persistContents document = []) =
     (\<forall>pc \<in> set (tree_order document). \<not> matches_selector pc) \<and>
   persistContents (regions_document (map (\<lambda>(i, t). (i, False, t)) rs)) = [] \<and>
   persistContents (Element attrs t []) = []"
  by (simp add: persistContents_regions no_region_editable)
     (simp add: persistContents_def querySelectorAll_def filter_empty_conv)

theorem edit_capture_empty_witness:
  "persistContents (Element [] [] []) = [] \<and>
   persistContents (regions_document [(''title'', False, ''My Static Site'')]) = []"
  using edit_capture_empty [of "Element [] [] []" "[]"]
    edit_capture_empty [of "regions_document [(''title'', False, ''My Static Site'')]" "[]"]
  by (simp add: regions_document_def region_node_def matches_selector_def getAttribute_def)

section \<open>The share action\<close>

lemma single_flight_initial: "single_flight initial_state"
  by (simp add: single_flight_def initial_state_def)

lemma share_suppressed: "hasSaveRequest s \<Longrightarrow> share f d s = s"
  by (simp add: share_def)

lemma share_accepted:
  "\<not> hasSaveRequest s \<Longrightarrow>
   share f d s =
     s\<lparr>hasSaveRequest := True, isSharingView := True,
       in_flight := in_flight s @
         [\<lparr>url = ''/api/save'', http_method = ''POST'',
           body = f (edits_json (persistContents d)), content_type = ''application/json''\<rparr>],
       issued := issued s @
         [\<lparr>url = ''/api/save'', http_method = ''POST'',
           body = f (edits_json (persistContents d)), content_type = ''application/json''\<rparr>]\<rparr>"
  by (simp add: share_def setSharing_def Let_def)

lemma share_sets_flag: "hasSaveRequest (share f d s)"
  by (simp add: share_def setSharing_def Let_def)

lemma single_flight_share: "single_flight s \<Longrightarrow> single_flight (share f d s)"
  by (cases "hasSaveRequest s") (auto simp: share_suppressed share_accepted single_flight_def)

lemma settle_fields:
  "hasSaveRequest (settle outcome s) = (in_flight s = [] \<and> hasSaveRequest s)"
  "in_flight (settle outcome s) = tl (in_flight s)"
  "issued (settle outcome s) = issued s"
  by (auto simp: settle_def setSharing_def Let_def
      split: list.splits fetch_outcome.splits option.splits sum.splits)

lemma single_flight_settle: "single_flight s \<Longrightarrow> single_flight (settle outcome s)"
  by (cases "in_flight s") (auto simp: single_flight_def settle_fields)

lemma single_flight_step:
  assumes "single_flight s"
  shows "single_flight (step f e s)"
proof (cases e)
  case (Share d)
  then show ?thesis by (simp add: single_flight_share assms)
next
  case (Settle outcome)
  then show ?thesis by (simp add: single_flight_settle assms)
next
  case ToggleEdit
  then show ?thesis using assms by (simp add: single_flight_def toggleEdit_def)
next
  case ClearSnapshot
  then show ?thesis using assms by (simp add: single_flight_def clearSnapshot_def)
qed

lemma single_flight_run: "single_flight s \<Longrightarrow> single_flight (run f evs s)"
  by (induction evs arbitrary: s) (auto simp: single_flight_step)

lemma step_keeps_request:
  "hasSaveRequest s \<Longrightarrow> \<not> is_Settle e \<Longrightarrow>
   hasSaveRequest (step f e s) \<and> issued (step f e s) = issued s \<and>
   in_flight (step f e s) = in_flight s"
  by (cases e) (auto simp: share_suppressed toggleEdit_def clearSnapshot_def)

lemma run_keeps_request:
  "hasSaveRequest s \<Longrightarrow> list_all (\<lambda>e. \<not> is_Settle e) evs \<Longrightarrow>
   hasSaveRequest (run f evs s) \<and> issued (run f evs s) = issued s \<and>
   in_flight (run f evs s) = in_flight s"
proof (induction evs arbitrary: s)
  case Nil
  then show ?case by simp
next
  case (Cons e evs)
  then have "hasSaveRequest (step f e s) \<and> issued (step f e s) = issued s \<and>
      in_flight (step f e s) = in_flight s"
    using step_keeps_request [of s e f] by simp
  then show ?case
    using Cons.IH [of "step f e s"] Cons.prems by simp
qed

text \<open>
  Claim C4. In every state \<open>s\<close> the page reaches, at most one save request is
  outstanding, and the flag is set exactly while one is. After a share (the state \<open>s'\<close>) a
  request is outstanding; a second share changes nothing, so that the two together
  issue at most one request, and exactly one when none was outstanding; as long as no request settles, whatever else happens
  issues no further request; and once the request settles, resolved or rejected, the
  flag is clear and the next share issues a request again.
\<close>

theorem share_single_flight:
  fixes JSON_stringify :: "json \<Rightarrow> string"
  assumes s: "s = run JSON_stringify evs initial_state"
    and shared: "s' = share JSON_stringify d s"
  shows "length (in_flight s) \<le> 1 \<and> hasSaveRequest s = (in_flight s \<noteq> []) \<and>
         hasSaveRequest s' \<and> length (in_flight s') = 1 \<and>
         length (issued s') \<le> length (issued s) + 1 \<and>
         share JSON_stringify d' s' = s' \<and>
         (\<not> hasSaveRequest s \<longrightarrow>
            length (issued (share JSON_stringify d' s')) = length (issued s) + 1) \<and>
         (list_all (\<lambda>e. \<not> is_Settle e) later \<longrightarrow>
            issued (run JSON_stringify later s') = issued s' \<and>
            in_flight (run JSON_stringify later s') = in_flight s') \<and>
         \<not> hasSaveRequest (settle outcome s') \<and> in_flight (settle outcome s') = [] \<and>
         length (issued (share JSON_stringify d'' (settle outcome s'))) = length (issued s') + 1"
proof -
  have inv: "single_flight s"
    unfolding s by (rule single_flight_run [OF single_flight_initial])
  have inv1: "single_flight s'"
    unfolding shared by (rule single_flight_share [OF inv])
  have flag1: "hasSaveRequest s'"
    unfolding shared by (rule share_sets_flag)
  have one: "length (in_flight s') = 1"
    using inv1 flag1 by (cases "in_flight s'") (auto simp: single_flight_def)
  have issued1: "length (issued s') \<le> length (issued s) + 1"
    unfolding shared by (cases "hasSaveRequest s") (simp_all add: share_suppressed share_accepted)
  have exact: "\<not> hasSaveRequest s \<longrightarrow> length (issued s') = length (issued s) + 1"
    unfolding shared by (simp add: share_accepted)
  have later: "list_all (\<lambda>e. \<not> is_Settle e) later \<longrightarrow>
      issued (run JSON_stringify later s') = issued s' \<and>
      in_flight (run JSON_stringify later s') = in_flight s'"
    using run_keeps_request [OF flag1] by blast
  have settled: "\<not> hasSaveRequest (settle outcome s') \<and> in_flight (settle outcome s') = []"
    using one by (cases "in_flight s'") (auto simp: settle_fields)
  then have again: "length (issued (share JSON_stringify d'' (settle outcome s'))) =
      length (issued s') + 1"
    by (simp add: share_accepted settle_fields)
  show ?thesis
    using inv inv1 flag1 one issued1 exact later settled again
    by (simp add: single_flight_def share_suppressed)
qed

theorem share_single_flight_witness:
  "share example_stringify (Element [] [] []) (share example_stringify (Element [] [] []) initial_state) =
     share example_stringify (Element [] [] []) initial_state \<and>
   issued (share example_stringify (Element [] [] [])
             (share example_stringify (Element [] [] []) initial_state)) =
     [\<lparr>url = ''/api/save'', http_method = ''POST'', body = ''[]'',
       content_type = ''application/json''\<rparr>] \<and>
   issued (run example_stringify [Share (Element [] [] []), ToggleEdit, Share (Element [] [] [])]
             initial_state) =
     [\<lparr>url = ''/api/save'', http_method = ''POST'', body = ''[]'',
       content_type = ''application/json''\<rparr>]"
  using share_single_flight [where s = initial_state and evs = "[]" and
      JSON_stringify = example_stringify and d = "Element [] [] []" and d' = "Element [] [] []" and
      s' = "share example_stringify (Element [] [] []) initial_state" and
      later = "[ToggleEdit, Share (Element [] [] [])]" and outcome = Rejected and
      d'' = "Element [] [] []"]
  by (simp add: share_accepted initial_state_def persistContents_def querySelectorAll_def
      example_stringify_def edits_json_def hello_edits_def)

text \<open>
  Claim C6. A share whose response has status 500 and the body
  \<^verbatim>\<open>{"snapshotId": "abc123"}\<close>: the status is never read, the identifier of the body
  becomes \<open>currentSnapshotId\<close>, and the page shows the share-link dialog for it.
\<close>

theorem share_ignores_status:
  "currentSnapshotId
     (run example_stringify
        [Share (Element [] [] []),
         Settle (Resolved \<lparr>status = 500,
                           json_body = Some (JObj [(''snapshotId'', JStr ''abc123'')])\<rparr>)]
        initial_state) = Some (JStr ''abc123'') \<and>
   Home \<lparr>isPreview = False, props_snapshotId = None, contents = None, hasError = None,
         message = None\<rparr>
     (run example_stringify
        [Share (Element [] [] []),
         Settle (Resolved \<lparr>status = 500,
                           json_body = Some (JObj [(''snapshotId'', JStr ''abc123'')])\<rparr>)]
        initial_state) =
     [Head ''Next.js | Preview Mode'', ShareLinkDialog (JStr ''abc123'')] @
     map (\<lambda>(i, children). Malleable i False (Some (JArr [])) children) page_regions @ [Edit]"
  by (simp add: share_def settle_def setSharing_def initial_state_def Let_def Home_def
      Home_edits_def)

text \<open>
  Property X2. The promise chain of the share action does not depend on the status of
  the response: only its JSON body decides what the page keeps.
\<close>

theorem settle_ignores_status:
  "settle (Resolved (res\<lparr>status := n\<rparr>)) s = settle (Resolved res) s"
  by (cases "in_flight s") (simp_all add: settle_def)

section \<open>From the save endpoint to the preview\<close>

lemma decode_edit_json: "decode_edit (edit_json e) = Some e"
  by (simp add: edit_json_def)

lemma those_decode: "those (map (\<lambda>e. decode_edit (edit_json e)) es) = Some es"
  by (induction es) (simp_all add: decode_edit_json)

lemma decode_edits_json: "decode_edits (edits_json es) = Some es"
  by (simp add: edits_json_def comp_def those_decode)

lemma edits_json_pairs:
  "edits_json es =
     JArr (map (\<lambda>e. JObj [(''id'', JStr (edit_id e)), (''innerText'', JStr (edit_innerText e))]) es)"
  by (simp add: edits_json_def edit_json_def)

lemma createSnapshot_available:
  "available st \<Longrightarrow>
   createSnapshot new_id f edits st =
     Inr (new_id st, st\<lparr>objects := (objects st)(new_id st @ ''.json'' \<mapsto> f (edits_json edits))\<rparr>)"
  by (simp add: createSnapshot_def blob_put_def Let_def)

lemma s3_of_store_stored:
  "available st \<Longrightarrow>
   s3_of_store (st\<lparr>objects := (objects st)(k \<mapsto> v)\<rparr>) client \<lparr>Bucket = b, Key = k\<rparr> =
     Inr \<lparr>Body = Some v\<rparr>"
  by (simp add: s3_of_store_def blob_get_def)

lemma getStaticProps_stored:
  "available st \<Longrightarrow>
   getStaticProps (s3_of_store (st\<lparr>objects := (objects st)(sid @ ''.json'' \<mapsto> v)\<rparr>)) P env
       \<lparr>preview = True, previewData = Some \<lparr>snapshotId = sid\<rparr>\<rparr> =
     (case P v of
        None \<Rightarrow> Inr (getStaticProps_catch SyntaxError)
      | Some c \<Rightarrow>
          Inr \<lparr>isPreview = True, props_snapshotId = Some sid, contents = Some c,
               hasError = None, message = None\<rparr>)"
  by (simp add: getStaticProps_preview getStaticProps_try_def s3_of_store_stored
      split: option.splits)

lemma getStaticProps_one_request:
  assumes "S (s3 env) \<lparr>Bucket = getenv env ''AWS_S3_BUCKET'', Key = snapshotId pd @ ''.json''\<rparr> =
           S' (s3 env) \<lparr>Bucket = getenv env ''AWS_S3_BUCKET'', Key = snapshotId pd @ ''.json''\<rparr>"
  shows "getStaticProps S P env \<lparr>preview = True, previewData = Some pd\<rparr> =
         getStaticProps S' P env \<lparr>preview = True, previewData = Some pd\<rparr>"
  using assms by (simp add: getStaticProps_preview getStaticProps_try_def)

lemma share_body:
  "\<not> hasSaveRequest s \<Longrightarrow>
   map body (issued (share f document s)) =
     map body (issued s) @ [f (edits_json (persistContents document))]"
  by (simp add: share_accepted)

lemma map_filter_app:
  "List.map_filter f (xs @ ys) = List.map_filter f xs @ List.map_filter f ys"
  by (simp add: map_filter_def)

lemma rendered_share_dialog: "List.map_filter rendered_region (share_dialog v) = []"
  by (cases v) (auto split: json.splits)

lemma rendered_Malleables:
  "decode_edits j = Some es \<Longrightarrow>
   List.map_filter rendered_region (map (\<lambda>(i, children). Malleable i a (Some j) children) rs) =
     map (\<lambda>(i, children). (i, overlay es i children)) rs"
  by (induction rs) auto

lemma rendered_regions_Home:
  assumes "Home_edits p = Some j" and "decode_edits j = Some es"
  shows "rendered_regions (Home p s) =
           map (\<lambda>(i, children). (i, overlay es i children)) page_regions"
  unfolding rendered_regions_def Home_def assms(1) map_filter_app
  by (simp add: rendered_share_dialog rendered_Malleables [OF assms(2)])

lemma rendered_empty_batch:
  assumes "Home_edits p = Some (JArr [])"
  shows "rendered_regions (Home p s) = page_regions"
  using rendered_regions_Home [OF assms, of "[]" s]
  by (simp add: overlay_def split_def)

lemma overlay_match:
  "distinct (map edit_id es) \<Longrightarrow> e \<in> set es \<Longrightarrow>
   overlay es (edit_id e) children = edit_innerText e"
  by (induction es) (auto simp: overlay_def)

lemma overlay_no_match: "i \<notin> edit_id ` set es \<Longrightarrow> overlay es i children = children"
  by (induction es) (auto simp: overlay_def)

lemma overlay_exact:
  assumes "distinct (map edit_id edits)"
  shows "(\<forall>e \<in> set edits. edit_id e = i \<longrightarrow> overlay edits i children = edit_innerText e) \<and>
         (i \<notin> edit_id ` set edits \<longrightarrow> overlay edits i children = children)"
  using overlay_match [OF assms] overlay_no_match [of i edits children] by blast

lemma page_regions_nth:
  "length page_regions = 14"
  "page_regions ! 0 = (''title'', ''My Static Site'')"
  "page_regions ! 2 = (''feature-1-text'', ''Blazing fast'')"
  by (simp_all add: page_regions_def)

text \<open>
  Claim C1. For a batch of edits with distinct identifiers (the empty batch included), a
  store that is available and a JSON codec that gives the batch back: creating the
  snapshot succeeds with the new identifier; rendering in preview with that identifier
  gives preview props without an error; and the page shows every region, in order, each
  with the text of the submitted edit that has its identifier, or with its default
  content when no submitted edit has it.
\<close>

theorem snapshot_round_trip:
  assumes valid: "distinct (map edit_id edits)"
    and up: "available st"
    and codec: "JSON_parse (JSON_stringify (edits_json edits)) = Some (edits_json edits)"
  shows "\<exists>st' p.
           createSnapshot new_id JSON_stringify edits st = Inr (new_id st, st') \<and>
           getStaticProps (s3_of_store st') JSON_parse env
               \<lparr>preview = True, previewData = Some \<lparr>snapshotId = new_id st\<rparr>\<rparr> = Inr p \<and>
           isPreview p \<and> hasError p = None \<and>
           length (rendered_regions (Home p s)) = length page_regions \<and>
           (\<forall>k < length page_regions.
              fst (rendered_regions (Home p s) ! k) = fst (page_regions ! k) \<and>
              (\<forall>e \<in> set edits. edit_id e = fst (page_regions ! k) \<longrightarrow>
                 snd (rendered_regions (Home p s) ! k) = edit_innerText e) \<and>
              (fst (page_regions ! k) \<notin> edit_id ` set edits \<longrightarrow>
                 snd (rendered_regions (Home p s) ! k) = snd (page_regions ! k)))"
proof -
  let ?st' = "st\<lparr>objects :=
      (objects st)(new_id st @ ''.json'' \<mapsto> JSON_stringify (edits_json edits))\<rparr>"
  let ?p = "\<lparr>isPreview = True, props_snapshotId = Some (new_id st),
             contents = Some (edits_json edits), hasError = None, message = None\<rparr>"
  have created: "createSnapshot new_id JSON_stringify edits st = Inr (new_id st, ?st')"
    by (rule createSnapshot_available [OF up])
  have fetched: "getStaticProps (s3_of_store ?st') JSON_parse env
      \<lparr>preview = True, previewData = Some \<lparr>snapshotId = new_id st\<rparr>\<rparr> = Inr ?p"
    by (simp add: getStaticProps_stored [OF up] codec)
  have shown: "rendered_regions (Home ?p s) =
      map (\<lambda>(i, children). (i, overlay edits i children)) page_regions"
    by (rule rendered_regions_Home [where j = "edits_json edits"])
       (simp_all add: Home_edits_def decode_edits_json)
  have all_shown: "length (rendered_regions (Home ?p s)) = length page_regions"
    by (simp add: shown)
  have texts: "\<forall>k < length page_regions.
      fst (rendered_regions (Home ?p s) ! k) = fst (page_regions ! k) \<and>
      (\<forall>e \<in> set edits. edit_id e = fst (page_regions ! k) \<longrightarrow>
         snd (rendered_regions (Home ?p s) ! k) = edit_innerText e) \<and>
      (fst (page_regions ! k) \<notin> edit_id ` set edits \<longrightarrow>
         snd (rendered_regions (Home ?p s) ! k) = snd (page_regions ! k))"
    unfolding shown using overlay_exact [OF valid]
    by (simp add: split_def)
  show ?thesis
    using created fetched all_shown texts by (intro exI [of _ ?st'] exI [of _ ?p]) simp
qed

theorem snapshot_round_trip_witness:
  "\<exists>st' p.
     createSnapshot (\<lambda>st. ''abc123'') example_stringify hello_edits empty_store =
       Inr (''abc123'', st') \<and>
     getStaticProps (s3_of_store st') example_parse []
         \<lparr>preview = True, previewData = Some \<lparr>snapshotId = ''abc123''\<rparr>\<rparr> = Inr p \<and>
     isPreview p \<and>
     rendered_regions (Home p initial_state) ! 0 = (''title'', ''Hello'') \<and>
     rendered_regions (Home p initial_state) ! 2 = (''feature-1-text'', ''Blazing fast'') \<and>
     (\<exists>st0 p0.
        createSnapshot (\<lambda>st. ''empty0'') example_stringify [] empty_store =
          Inr (''empty0'', st0) \<and>
        getStaticProps (s3_of_store st0) example_parse []
            \<lparr>preview = True, previewData = Some \<lparr>snapshotId = ''empty0''\<rparr>\<rparr> = Inr p0 \<and>
        isPreview p0 \<and>
        rendered_regions (Home p0 initial_state) = page_regions)"
proof -
  have valid: "distinct (map edit_id hello_edits)"
    by (simp add: hello_edits_def)
  have up: "available empty_store"
    by (simp add: empty_store_def)
  have codec:
    "example_parse (example_stringify (edits_json hello_edits)) = Some (edits_json hello_edits)"
    by (simp add: example_parse_def example_stringify_def)
  obtain st' p where
    c: "createSnapshot (\<lambda>st. ''abc123'') example_stringify hello_edits empty_store =
          Inr (''abc123'', st')" and
    g: "getStaticProps (s3_of_store st') example_parse []
          \<lparr>preview = True, previewData = Some \<lparr>snapshotId = ''abc123''\<rparr>\<rparr> = Inr p" and
    pv: "isPreview p" and
    texts: "\<forall>k < length page_regions.
      fst (rendered_regions (Home p initial_state) ! k) = fst (page_regions ! k) \<and>
      (\<forall>e \<in> set hello_edits. edit_id e = fst (page_regions ! k) \<longrightarrow>
         snd (rendered_regions (Home p initial_state) ! k) = edit_innerText e) \<and>
      (fst (page_regions ! k) \<notin> edit_id ` set hello_edits \<longrightarrow>
         snd (rendered_regions (Home p initial_state) ! k) = snd (page_regions ! k))"
    using snapshot_round_trip [where edits = hello_edits and st = empty_store and
        JSON_parse = example_parse and JSON_stringify = example_stringify and
        new_id = "\<lambda>st. ''abc123''" and env = "[]" and s = initial_state, OF valid up codec]
    by blast
  have r0: "rendered_regions (Home p initial_state) ! 0 = (''title'', ''Hello'')"
    using texts [rule_format, of 0] by (simp add: page_regions_nth prod_eq_iff hello_edits_def)
  have r2: "rendered_regions (Home p initial_state) ! 2 = (''feature-1-text'', ''Blazing fast'')"
    using texts [rule_format, of 2] by (simp add: page_regions_nth prod_eq_iff hello_edits_def)
  have codec0: "example_parse (example_stringify (edits_json [])) = Some (edits_json [])"
    by (simp add: example_parse_def example_stringify_def edits_json_def hello_edits_def
        hello_text_def)
  have c0: "createSnapshot (\<lambda>st. ''empty0'') example_stringify [] empty_store =
      Inr (''empty0'', empty_store\<lparr>objects :=
        (objects empty_store)(''empty0'' @ ''.json'' \<mapsto> example_stringify (edits_json []))\<rparr>)"
    by (rule createSnapshot_available [OF up])
  have g0: "getStaticProps
      (s3_of_store (empty_store\<lparr>objects :=
        (objects empty_store)(''empty0'' @ ''.json'' \<mapsto> example_stringify (edits_json []))\<rparr>))
      example_parse [] \<lparr>preview = True, previewData = Some \<lparr>snapshotId = ''empty0''\<rparr>\<rparr> =
      Inr \<lparr>isPreview = True, props_snapshotId = Some ''empty0'',
           contents = Some (edits_json []), hasError = None, message = None\<rparr>"
    using getStaticProps_stored [OF up, of "''empty0''" "example_stringify (edits_json [])"
        example_parse "[]"]
    by (simp add: codec0)
  have r: "rendered_regions
      (Home \<lparr>isPreview = True, props_snapshotId = Some ''empty0'',
             contents = Some (edits_json []), hasError = None, message = None\<rparr> initial_state) =
      page_regions"
    by (rule rendered_empty_batch) (simp add: Home_edits_def edits_json_def)
  have empty_batch: "\<exists>st0 p0.
      createSnapshot (\<lambda>st. ''empty0'') example_stringify [] empty_store =
        Inr (''empty0'', st0) \<and>
      getStaticProps (s3_of_store st0) example_parse []
          \<lparr>preview = True, previewData = Some \<lparr>snapshotId = ''empty0''\<rparr>\<rparr> = Inr p0 \<and>
      isPreview p0 \<and>
      rendered_regions (Home p0 initial_state) = page_regions"
    using c0 g0 r by (intro exI conjI) simp_all
  show ?thesis
    using c g pv r0 r2 empty_batch by blast
qed

text \<open>
  Claim C8. The save endpoint stores a snapshot as one object, under the identifier
  followed by \<^verbatim>\<open>.json\<close>, whose value is the JSON text of the array of
  \<^verbatim>\<open>{id, innerText}\<close> pairs, and a preview render of that identifier reads that
  object. On the page's side: \<^verbatim>\<open>getStaticProps\<close> depends on the store only through
  its answer for the key made of the identifier and \<^verbatim>\<open>.json\<close>, and the body the share
  action posts is the JSON text of the array of \<^verbatim>\<open>{id, innerText}\<close> pairs it captured.
\<close>

theorem snapshot_key_layout:
  assumes up: "available st"
  shows "(\<exists>st'. createSnapshot new_id JSON_stringify edits st = Inr (new_id st, st') \<and>
            objects st' =
              (objects st)(new_id st @ ''.json'' \<mapsto>
                JSON_stringify
                  (JArr (map (\<lambda>e. JObj [(''id'', JStr (edit_id e)),
                                         (''innerText'', JStr (edit_innerText e))]) edits))) \<and>
            getStaticProps (s3_of_store st') JSON_parse env
                \<lparr>preview = True, previewData = Some \<lparr>snapshotId = new_id st\<rparr>\<rparr> =
              (case JSON_parse (JSON_stringify (edits_json edits)) of
                 None \<Rightarrow> Inr (getStaticProps_catch SyntaxError)
               | Some c \<Rightarrow>
                   Inr \<lparr>isPreview = True, props_snapshotId = Some (new_id st),
                        contents = Some c, hasError = None, message = None\<rparr>)) \<and>
         (S (s3 env) \<lparr>Bucket = getenv env ''AWS_S3_BUCKET'', Key = snapshotId pd @ ''.json''\<rparr> =
          S' (s3 env) \<lparr>Bucket = getenv env ''AWS_S3_BUCKET'', Key = snapshotId pd @ ''.json''\<rparr> \<longrightarrow>
          getStaticProps S JSON_parse env \<lparr>preview = True, previewData = Some pd\<rparr> =
          getStaticProps S' JSON_parse env \<lparr>preview = True, previewData = Some pd\<rparr>) \<and>
         (\<not> hasSaveRequest s \<longrightarrow>
          map body (issued (share JSON_stringify document s)) =
            map body (issued s) @
            [JSON_stringify
               (JArr (map (\<lambda>e. JObj [(''id'', JStr (edit_id e)),
                                      (''innerText'', JStr (edit_innerText e))])
                        (persistContents document)))])"
proof -
  let ?st' = "st\<lparr>objects :=
      (objects st)(new_id st @ ''.json'' \<mapsto> JSON_stringify (edits_json edits))\<rparr>"
  have created: "createSnapshot new_id JSON_stringify edits st = Inr (new_id st, ?st')"
    by (rule createSnapshot_available [OF up])
  have stored: "objects ?st' =
      (objects st)(new_id st @ ''.json'' \<mapsto>
        JSON_stringify
          (JArr (map (\<lambda>e. JObj [(''id'', JStr (edit_id e)),
                                 (''innerText'', JStr (edit_innerText e))]) edits)))"
    by (simp add: edits_json_pairs)
  have read: "getStaticProps (s3_of_store ?st') JSON_parse env
      \<lparr>preview = True, previewData = Some \<lparr>snapshotId = new_id st\<rparr>\<rparr> =
      (case JSON_parse (JSON_stringify (edits_json edits)) of
         None \<Rightarrow> Inr (getStaticProps_catch SyntaxError)
       | Some c \<Rightarrow>
           Inr \<lparr>isPreview = True, props_snapshotId = Some (new_id st),
                contents = Some c, hasError = None, message = None\<rparr>)"
    by (rule getStaticProps_stored [OF up])
  have written: "\<exists>st'. createSnapshot new_id JSON_stringify edits st = Inr (new_id st, st') \<and>
      objects st' =
        (objects st)(new_id st @ ''.json'' \<mapsto>
          JSON_stringify
            (JArr (map (\<lambda>e. JObj [(''id'', JStr (edit_id e)),
                                   (''innerText'', JStr (edit_innerText e))]) edits))) \<and>
      getStaticProps (s3_of_store st') JSON_parse env
          \<lparr>preview = True, previewData = Some \<lparr>snapshotId = new_id st\<rparr>\<rparr> =
        (case JSON_parse (JSON_stringify (edits_json edits)) of
           None \<Rightarrow> Inr (getStaticProps_catch SyntaxError)
         | Some c \<Rightarrow>
             Inr \<lparr>isPreview = True, props_snapshotId = Some (new_id st),
                  contents = Some c, hasError = None, message = None\<rparr>)"
    using created stored read by (intro exI [of _ ?st']) (intro conjI)
  show ?thesis
    using written getStaticProps_one_request [of S env pd S' JSON_parse]
      share_body [of s JSON_stringify document]
    unfolding edits_json_pairs [of "persistContents document"]
    by (intro conjI impI)
qed

theorem snapshot_key_layout_witness:
  "\<exists>st'. createSnapshot (\<lambda>st. ''abc123'') example_stringify hello_edits empty_store =
           Inr (''abc123'', st') \<and>
         objects st' ''abc123.json'' = Some hello_text \<and>
         objects st' ''abc123'' = None \<and>
         getStaticProps (s3_of_store st') example_parse []
             \<lparr>preview = True, previewData = Some \<lparr>snapshotId = ''abc123''\<rparr>\<rparr> =
           Inr \<lparr>isPreview = True, props_snapshotId = Some ''abc123'',
                contents =
                  Some (JArr [JObj [(''id'', JStr ''title''), (''innerText'', JStr ''Hello'')]]),
                hasError = None, message = None\<rparr>"
proof -
  have up: "available empty_store"
    by (simp add: empty_store_def)
  have codec:
    "example_parse (example_stringify (edits_json hello_edits)) = Some (edits_json hello_edits)"
    by (simp add: example_parse_def example_stringify_def)
  have posted: "example_stringify (JArr (map (\<lambda>e. JObj [(''id'', JStr (edit_id e)),
      (''innerText'', JStr (edit_innerText e))]) hello_edits)) = hello_text"
    by (simp add: example_stringify_def edits_json_pairs)
  have batch: "edits_json hello_edits =
      JArr [JObj [(''id'', JStr ''title''), (''innerText'', JStr ''Hello'')]]"
    by (simp add: edits_json_pairs hello_edits_def)
  obtain st' where
    c: "createSnapshot (\<lambda>st. ''abc123'') example_stringify hello_edits empty_store =
          Inr (''abc123'', st')" and
    o: "objects st' = (objects empty_store)(''abc123'' @ ''.json'' \<mapsto> hello_text)" and
    g: "getStaticProps (s3_of_store st') example_parse []
          \<lparr>preview = True, previewData = Some \<lparr>snapshotId = ''abc123''\<rparr>\<rparr> =
        Inr \<lparr>isPreview = True, props_snapshotId = Some ''abc123'',
             contents = Some (edits_json hello_edits), hasError = None, message = None\<rparr>"
    using snapshot_key_layout [where st = empty_store and new_id = "\<lambda>st. ''abc123''" and
        JSON_stringify = example_stringify and JSON_parse = example_parse and
        edits = hello_edits and env = "[]", OF up, THEN conjunct1]
    unfolding codec posted by auto
  have k: "objects st' ''abc123.json'' = Some hello_text \<and> objects st' ''abc123'' = None"
    unfolding o by (simp add: empty_store_def)
  show ?thesis
    using c k g unfolding batch by blast
qed

end
